theory Spec2Isabelle
  imports Main "HOL-Library.Word"
begin

unbundle bit_operations_syntax

section \<open>Call signalling: \<^verbatim>\<open>WebRTCHandler\<close> (webrtc\_handler.h, webrtc\_handler.cpp)\<close>

text \<open>
  The handler owns two hash maps, \<^verbatim>\<open>calls_\<close> (call id to session) and
  \<^verbatim>\<open>userCalls_\<close> (user id to call id). Every public operation runs under one mutex,
  so an operation is a function from the handler's state to its next state.

  Three things come from outside and are arguments of the model:
  \<^item> the identifier \<^verbatim>\<open>generateCallId()\<close> returns (clock and random device),
  \<^item> the clock reading in seconds, a \<^verbatim>\<open>uint64_t\<close> once stored,
  \<^item> the JSON library: \<^verbatim>\<open>sendSignal\<close> runs \<^verbatim>\<open>json::parse\<close> on the text its caller
    spliced together, and \<^verbatim>\<open>sendOffer\<close>, \<^verbatim>\<open>sendAnswer\<close>, \<^verbatim>\<open>sendIceCandidate\<close> run
    \<^verbatim>\<open>dump()\<close> on an object they built. Both throw on input the library rejects; the
    predicate \<open>json_ok\<close> says which payloads it accepts, and a rejected payload makes
    the operation end by an exception (\<open>Threw\<close>) with the state as mutated so far.
\<close>

datatype CallState = IDLE | CALLING | RINGING | CONNECTING | CONNECTED | ENDED

datatype CallType = AUDIO | VIDEO | SCREEN_SHARE

record Participant =
  p_userId :: string
  hasVideo :: bool
  hasAudio :: bool
  isMuted :: bool
  isScreenSharing :: bool

record CallSession =
  cs_callId :: string
  cs_roomId :: string
  cs_type :: CallType
  cs_state :: CallState
  initiatorId :: string
  participants :: "Participant list"
  startedAt :: "64 word"
  connectedAt :: "64 word"

text \<open>
  The \<^verbatim>\<open>data\<close> argument of \<^verbatim>\<open>sendSignal\<close>: either text concatenated by hand
  (\<open>Spliced\<close>), or the \<^verbatim>\<open>dump()\<close> of a JSON object with the given string fields
  (\<open>Dumped\<close>).
\<close>

datatype payload = Spliced string | Dumped "(string \<times> string) list"

text \<open>
  One delivery of the message \<^verbatim>\<open>{"type": signalType, "data": ...}\<close>: through the
  injected callback (user id, signal type, data), or published on the topic
  \<^verbatim>\<open>user:<id>\<close> when no callback is set.
\<close>

datatype delivery =
    ViaCallback string string payload
  | ViaPubSub string string payload

record WebRTCHandler =
  calls :: "string \<rightharpoonup> CallSession"
  userCalls :: "string \<rightharpoonup> string"
  sendToUserCallback :: bool
  delivered :: "delivery list"

text \<open>
  The strings the operations return carry emoji; each is one constructor here:
  \<^item> \<open>AlreadyInCall\<close>: "You're already in a call! End it first."
  \<^item> \<open>Calling target kind id\<close>: the "Calling..." text with target, Video/Audio and call id
  \<^item> \<open>CallNotFound\<close>: "Call not found!"
  \<^item> \<open>NotRinging\<close>: "Call is not in ringing state!"
  \<^item> \<open>CallAccepted\<close>: "Call Accepted!"
  \<^item> \<open>CallDeclined\<close>: "Call Declined"
  \<^item> \<open>NoActiveCall\<close>: "No active call!"
  \<^item> \<open>CallEnded d\<close>: "Call Ended", with the line "Duration: m:ss" when \<open>d = Some (m, s)\<close>
  \<^item> \<open>Done\<close>: a \<^verbatim>\<open>void\<close> function returned
\<close>

datatype reply =
    AlreadyInCall
  | Calling string string string
  | CallNotFound
  | NotRinging
  | CallAccepted
  | CallDeclined
  | NoActiveCall
  | CallEnded "(32 word \<times> 64 word) option"
  | Done

datatype outcome = Returned reply | Threw

fun callTypeToString :: "CallType \<Rightarrow> string" where
  "callTypeToString AUDIO = ''audio''"
| "callTypeToString VIDEO = ''video''"
| "callTypeToString SCREEN_SHARE = ''screen''"

text \<open>Decimal text of an unsigned number, as \<^verbatim>\<open>operator<<\<close> prints a \<^verbatim>\<open>uint64_t\<close>.\<close>

fun to_string :: "nat \<Rightarrow> string" where
  "to_string n =
     (if n < 10 then [char_of (48 + n)]
      else to_string (n div 10) @ [char_of (48 + n mod 10)])"

declare to_string.simps [simp del]

definition bool_text :: "bool \<Rightarrow> string" where
  "bool_text b = (if b then ''true'' else ''false'')"

definition signal_to :: "WebRTCHandler \<Rightarrow> string \<Rightarrow> string \<Rightarrow> payload \<Rightarrow> delivery" where
  "signal_to h targetUserId signalType data =
     (if sendToUserCallback h then ViaCallback targetUserId signalType data
      else ViaPubSub (''user:'' @ targetUserId) signalType data)"

definition sendSignal ::
  "(payload \<Rightarrow> bool) \<Rightarrow> WebRTCHandler \<Rightarrow> string \<Rightarrow> string \<Rightarrow> payload \<Rightarrow> WebRTCHandler option"
where
  "sendSignal json_ok h targetUserId signalType data =
     (if \<not> json_ok data then None
      else Some (h\<lparr>delivered := delivered h @ [signal_to h targetUserId signalType data]\<rparr>))"

definition incoming_text :: "string \<Rightarrow> string \<Rightarrow> string \<Rightarrow> CallType \<Rightarrow> bool \<Rightarrow> string" where
  \<open>incoming_text cid callerId callerName ty isGroupCall =
     ''{"callId":"'' @ cid @ ''","callerId":"'' @ callerId
       @ ''","callerName":"'' @ callerName
       @ ''","type":"'' @ callTypeToString ty
       @ ''","isGroup":'' @ bool_text isGroupCall @ ''}''\<close>

definition initiateCall ::
  "(payload \<Rightarrow> bool) \<Rightarrow> string \<Rightarrow> 64 word \<Rightarrow> WebRTCHandler
     \<Rightarrow> string \<Rightarrow> string \<Rightarrow> string \<Rightarrow> CallType \<Rightarrow> bool \<Rightarrow> WebRTCHandler \<times> outcome"
where
  "initiateCall json_ok newCallId now h callerId callerName targetId ty isGroupCall =
     (if userCalls h callerId \<noteq> None then (h, Returned AlreadyInCall)
      else
        let caller = \<lparr>p_userId = callerId, hasVideo = (ty = VIDEO), hasAudio = True,
                       isMuted = False, isScreenSharing = (ty = SCREEN_SHARE)\<rparr>;
            session = \<lparr>cs_callId = newCallId,
                        cs_roomId = (if isGroupCall then targetId else ''''),
                        cs_type = ty, cs_state = CALLING, initiatorId = callerId,
                        participants = [caller], startedAt = now, connectedAt = 0\<rparr>;
            h1 = h\<lparr>calls := (calls h)(newCallId \<mapsto> session),
                    userCalls := (userCalls h)(callerId \<mapsto> newCallId)\<rparr>
        in case sendSignal json_ok h1 targetId ''call_incoming''
                  (Spliced (incoming_text newCallId callerId callerName ty isGroupCall)) of
             None \<Rightarrow> (h1, Threw)
           | Some h2 \<Rightarrow>
               (h2, Returned (Calling targetId (if ty = VIDEO then ''Video'' else ''Audio'')
                                newCallId)))"

definition accepted_text :: "string \<Rightarrow> string \<Rightarrow> string" where
  \<open>accepted_text cid uid =
     ''{"callId":"'' @ cid @ ''","userId":"'' @ uid @ ''","action":"accepted"}''\<close>

definition acceptCall ::
  "(payload \<Rightarrow> bool) \<Rightarrow> WebRTCHandler \<Rightarrow> string \<Rightarrow> string \<Rightarrow> WebRTCHandler \<times> outcome"
where
  "acceptCall json_ok h cid uid =
     (case calls h cid of
        None \<Rightarrow> (h, Returned CallNotFound)
      | Some session \<Rightarrow>
          (if cs_state session \<noteq> CALLING then (h, Returned NotRinging)
          else
            let participant = \<lparr>p_userId = uid, hasVideo = (cs_type session = VIDEO),
                                hasAudio = True, isMuted = False, isScreenSharing = False\<rparr>;
                session1 = session\<lparr>participants := participants session @ [participant]\<rparr>;
                session2 = session1\<lparr>cs_state := CONNECTING\<rparr>;
                h1 = h\<lparr>calls := (calls h)(cid \<mapsto> session2),
                        userCalls := (userCalls h)(uid \<mapsto> cid)\<rparr>
            in case sendSignal json_ok h1 (initiatorId session) ''call_accepted''
                      (Spliced (accepted_text cid uid)) of
                 None \<Rightarrow> (h1, Threw)
               | Some h2 \<Rightarrow> (h2, Returned CallAccepted)))"

definition rejected_text :: "string \<Rightarrow> string \<Rightarrow> string \<Rightarrow> string" where
  \<open>rejected_text cid uid reason =
     ''{"callId":"'' @ cid @ ''","userId":"'' @ uid @ ''","reason":"'' @ reason @ ''"}''\<close>

definition rejectCall ::
  "(payload \<Rightarrow> bool) \<Rightarrow> WebRTCHandler \<Rightarrow> string \<Rightarrow> string \<Rightarrow> string
     \<Rightarrow> WebRTCHandler \<times> outcome"
where
  "rejectCall json_ok h cid uid reason =
     (case calls h cid of
        None \<Rightarrow> (h, Returned CallNotFound)
      | Some session \<Rightarrow>
          (case sendSignal json_ok h (initiatorId session) ''call_rejected''
                  (Spliced (rejected_text cid uid reason)) of
             None \<Rightarrow> (h, Threw)
           | Some h1 \<Rightarrow>
               (h1\<lparr>userCalls := (userCalls h1)(initiatorId session := None),
                    calls := (calls h1)(cid := None)\<rparr>,
                Returned CallDeclined)))"





definition sendOffer ::
  "(payload \<Rightarrow> bool) \<Rightarrow> WebRTCHandler \<Rightarrow> string \<Rightarrow> string \<Rightarrow> string \<Rightarrow> string
     \<Rightarrow> WebRTCHandler \<times> outcome"
where
  "sendOffer json_ok h cid fromUserId toUserId sdpOffer =
     (case sendSignal json_ok h toUserId ''webrtc_offer''
             (Dumped [(''callId'', cid), (''from'', fromUserId), (''sdp'', sdpOffer)]) of
        None \<Rightarrow> (h, Threw)
      | Some h1 \<Rightarrow> (h1, Returned Done))"

definition sendAnswer ::
  "(payload \<Rightarrow> bool) \<Rightarrow> 64 word \<Rightarrow> WebRTCHandler \<Rightarrow> string \<Rightarrow> string \<Rightarrow> string \<Rightarrow> string
     \<Rightarrow> WebRTCHandler \<times> outcome"
where
  "sendAnswer json_ok now h cid fromUserId toUserId sdpAnswer =
     (let h1 = (case calls h cid of
                  None \<Rightarrow> h
                | Some session \<Rightarrow>
                    h\<lparr>calls := (calls h)(cid \<mapsto>
                         session\<lparr>cs_state := CONNECTED, connectedAt := now\<rparr>)\<rparr>)
      in case sendSignal json_ok h1 toUserId ''webrtc_answer''
                (Dumped [(''callId'', cid), (''from'', fromUserId), (''sdp'', sdpAnswer)]) of
           None \<Rightarrow> (h1, Threw)
         | Some h2 \<Rightarrow> (h2, Returned Done))"

definition sendIceCandidate ::
  "(payload \<Rightarrow> bool) \<Rightarrow> WebRTCHandler \<Rightarrow> string \<Rightarrow> string \<Rightarrow> string \<Rightarrow> string
     \<Rightarrow> WebRTCHandler \<times> outcome"
where
  "sendIceCandidate json_ok h cid fromUserId toUserId candidate =
     (case sendSignal json_ok h toUserId ''webrtc_ice''
             (Dumped [(''callId'', cid), (''from'', fromUserId), (''candidate'', candidate)]) of
        None \<Rightarrow> (h, Threw)
      | Some h1 \<Rightarrow> (h1, Returned Done))"

definition hasActiveCall :: "WebRTCHandler \<Rightarrow> string \<Rightarrow> bool" where
  "hasActiveCall h uid = (userCalls h uid \<noteq> None)"






text \<open>Example states: user A calls user B with call id c1, then B accepts.\<close>

definition accept_all :: "payload \<Rightarrow> bool" where
  "accept_all p = True"

definition ex_h0 :: WebRTCHandler where
  "ex_h0 = \<lparr>calls = Map.empty, userCalls = Map.empty, sendToUserCallback = True,
            delivered = []\<rparr>"

definition ex_calling :: WebRTCHandler where
  "ex_calling =
     fst (initiateCall accept_all ''c1'' 1000 ex_h0 ''A'' ''Alice'' ''B'' VIDEO False)"

definition ex_connecting :: WebRTCHandler where
  "ex_connecting = fst (acceptCall accept_all ex_calling ''c1'' ''B'')"

text \<open>User B, called by A, has started a call of their own to C and then accepts A's.\<close>

definition ex_two_calls :: WebRTCHandler where
  "ex_two_calls =
     fst (acceptCall accept_all
            (fst (initiateCall accept_all ''c2'' 1001 ex_calling ''B'' ''Bob'' ''C'' AUDIO False))
            ''c1'' ''B'')"

section \<open>Inbound frames\<close>

text \<open>
  An inbound frame is a JSON object. The handlers read it with
  \<^verbatim>\<open>msg.value(key, default)\<close>, which gives the default when the key is absent. A frame
  here is its \<^verbatim>\<open>type\<close> with the string fields and the integer fields it carries.
\<close>

record frame =
  fr_type :: string
  fr_str :: "string \<rightharpoonup> string"
  fr_num :: "string \<rightharpoonup> int"

definition value_str :: "frame \<Rightarrow> string \<Rightarrow> string \<Rightarrow> string" where
  "value_str data key dflt = (case fr_str data key of None \<Rightarrow> dflt | Some v \<Rightarrow> v)"

text \<open>
  \<^verbatim>\<open>data.value(key, 0)\<close> with an \<^verbatim>\<open>int\<close> default returns an \<^verbatim>\<open>int\<close>: the number cast to 32
  bits. Stored in a \<^verbatim>\<open>uint32_t\<close> it keeps its bits; stored in a \<^verbatim>\<open>uint64_t\<close> it is
  sign-extended.
\<close>

definition value_int :: "frame \<Rightarrow> string \<Rightarrow> 32 word \<Rightarrow> 32 word" where
  "value_int data key dflt = (case fr_num data key of None \<Rightarrow> dflt | Some v \<Rightarrow> word_of_int v)"

section \<open>Chunked upload: \<^verbatim>\<open>FileHandler\<close> (file\_handler.cpp)\<close>

text \<open>
  The upload table \<^verbatim>\<open>activeUploads\<close> is a file-level static map from upload id to
  session. The file system is the part of it the handler touches: the chunk files of
  each temporary directory (by directory path, then by chunk index) and the files
  written to the uploads directory (by file name). A directory is known to the model
  by its path string, so upload ids are read as single path components.

  From outside come the identifiers \<^verbatim>\<open>generateFileId()\<close> returns, the clock, and whether
  an output file could be opened. Directory creation and removal are taken to succeed.
  The strings written into JSON replies come out of parsed frames and the
  authentication service; serialising them is not a failure case here.
\<close>

type_synonym bytes = "8 word list"

record UploadSession =
  us_uploadId :: string
  us_fileName :: string
  us_fileSize :: "64 word"
  us_mimeType :: string
  us_chunkSize :: "32 word"
  us_totalChunks :: "32 word"
  us_chunksReceived :: "32 word"
  us_tempDir :: string
  us_userId :: string
  us_roomId :: string
  us_createdAt :: "64 word"

text \<open>
  The chat-style message \<^verbatim>\<open>broadcastFileMessage\<close> publishes. Its content is
  "Voice Message" for a voice message and the file name after a paper-clip otherwise;
  both start with an emoji, so the content is kept as the pair (is voice, file name).
\<close>

record file_message =
  fm_messageId :: string
  fm_roomId :: string
  fm_userId :: string
  fm_voiceContent :: bool
  fm_timestamp :: "64 word"
  fm_messageType :: string
  fm_fileId :: string
  fm_fileName :: string
  fm_url :: string
  fm_fileSize :: "64 word"
  fm_mimeType :: string

record FileHandler =
  activeUploads :: "string \<rightharpoonup> UploadSession"
  temp_dirs :: "string \<rightharpoonup> (32 word \<rightharpoonup> bytes)"
  upload_files :: "string \<rightharpoonup> bytes"
  broker_set :: bool
  published :: "(string \<times> file_message) list"

datatype upload_reply =
    UploadReady string "32 word" "32 word"
  | UploadProgress string "32 word" "32 word" "32 word"
  | UploadComplete string string string string "64 word" string bool
  | UploadError string string
  | DivisionTrap

definition TEMP_UPLOADS_DIR :: string where
  "TEMP_UPLOADS_DIR = ''./uploads/temp''"

fun index_of :: "'a \<Rightarrow> 'a list \<Rightarrow> nat option" where
  "index_of c [] = None"
| "index_of c (x # xs) =
     (if x = c then Some 0 else map_option Suc (index_of c xs))"

definition base64_chars :: string where
  "base64_chars =
     ''ABCDEFGHIJKLMNOPQRSTUVWXYZabcdefghijklmnopqrstuvwxyz0123456789+/''"

text \<open>
  The loop of \<^verbatim>\<open>decodeBase64\<close>. \<^verbatim>\<open>val\<close> is a 32-bit \<^verbatim>\<open>int\<close> that only ever grows by
  shifting; it is a word here, wrapping as the compiled code does, and \<^verbatim>\<open>valb\<close> stays
  between -8 and 4.
\<close>

fun decode_loop :: "32 word \<Rightarrow> int \<Rightarrow> string \<Rightarrow> bytes" where
  "decode_loop val valb [] = []"
| "decode_loop val valb (c # cs) =
     (if c = CHR ''='' then []
      else case index_of c base64_chars of
             None \<Rightarrow> decode_loop val valb cs
           | Some idx \<Rightarrow>
               (let val1 = push_bit 6 val + of_nat idx;
                    valb1 = valb + 6
                in if valb1 \<ge> 0
                   then ucast (signed_drop_bit (nat valb1) val1 AND 0xFF)
                          # decode_loop val1 (valb1 - 8) cs
                   else decode_loop val1 valb1 cs))"

definition decodeBase64 :: "string \<Rightarrow> bytes" where
  "decodeBase64 base64 = decode_loop 0 (- 8) base64"

text \<open>\<^verbatim>\<open>getFileExtension\<close>: the file name from its last dot on, empty without a dot.\<close>

fun from_last_dot :: "string \<Rightarrow> string option" where
  "from_last_dot [] = None"
| "from_last_dot (c # cs) =
     (case from_last_dot cs of
        Some e \<Rightarrow> Some e
      | None \<Rightarrow> if c = CHR ''.'' then Some (c # cs) else None)"

definition getFileExtension :: "string \<Rightarrow> string" where
  "getFileExtension filename = (case from_last_dot filename of None \<Rightarrow> [] | Some e \<Rightarrow> e)"

text \<open>\<^verbatim>\<open>s.find(prefix) == 0\<close>.\<close>

definition starts_with :: "string \<Rightarrow> string \<Rightarrow> bool" where
  "starts_with s p = (take (length p) s = p)"

definition handleUploadInit ::
  "string \<Rightarrow> 64 word \<Rightarrow> FileHandler \<Rightarrow> frame \<Rightarrow> string \<Rightarrow> string
     \<Rightarrow> FileHandler \<times> upload_reply"
where
  "handleUploadInit newFileId now fh data userId roomId =
     (let uploadId = value_str data ''uploadId'' newFileId;
          fileName = value_str data ''fileName'' ''unknown'';
          fileSize = scast (value_int data ''fileSize'' 0);
          mimeType = value_str data ''mimeType'' ''application/octet-stream'';
          chunkSize = value_int data ''chunkSize'' 1048576;
          totalChunks = value_int data ''totalChunks'' 1;
          tempDir = TEMP_UPLOADS_DIR @ ''/'' @ uploadId;
          dirs = (case temp_dirs fh tempDir of
                    None \<Rightarrow> (temp_dirs fh)(tempDir \<mapsto> Map.empty)
                  | Some d \<Rightarrow> temp_dirs fh);
          session = \<lparr>us_uploadId = uploadId, us_fileName = fileName, us_fileSize = fileSize,
                      us_mimeType = mimeType, us_chunkSize = chunkSize,
                      us_totalChunks = totalChunks, us_chunksReceived = 0,
                      us_tempDir = tempDir, us_userId = userId, us_roomId = roomId,
                      us_createdAt = now\<rparr>
      in (fh\<lparr>temp_dirs := dirs, activeUploads := (activeUploads fh)(uploadId \<mapsto> session)\<rparr>,
          UploadReady uploadId chunkSize totalChunks))"

text \<open>
  \<^verbatim>\<open>handleUploadChunk\<close>. \<open>open_ok\<close> says whether the output stream for the chunk file
  opened; it cannot when the directory is gone. The frame's own \<^verbatim>\<open>totalChunks\<close> is only
  echoed in the reply; the progress divides by the session's, and a session declared
  with zero chunks makes that an integer division by zero.
\<close>

definition handleUploadChunk ::
  "bool \<Rightarrow> FileHandler \<Rightarrow> frame \<Rightarrow> string \<Rightarrow> FileHandler \<times> upload_reply"
where
  "handleUploadChunk open_ok fh data userId =
     (let uploadId = value_str data ''uploadId'' '''';
          chunkIndex = value_int data ''chunkIndex'' 0;
          chunkData = value_str data ''chunkData'' '''';
          totalChunks = value_int data ''totalChunks'' 1
      in
      if uploadId = [] then (fh, UploadError uploadId ''Missing uploadId'')
      else (case activeUploads fh uploadId of
        None \<Rightarrow> (fh, UploadError uploadId (''Upload session not found: '' @ uploadId))
      | Some session \<Rightarrow>
          (if us_userId session \<noteq> userId
           then (fh, UploadError uploadId ''Unauthorized upload'')
           else (case temp_dirs fh (us_tempDir session) of
             None \<Rightarrow> (fh, UploadError uploadId ''Failed to create chunk file'')
           | Some dir \<Rightarrow>
               (if \<not> open_ok then (fh, UploadError uploadId ''Failed to create chunk file'')
                else
                  let chunkBytes = decodeBase64 chunkData;
                      fh1 = fh\<lparr>temp_dirs := (temp_dirs fh)(us_tempDir session \<mapsto>
                                              dir(chunkIndex \<mapsto> chunkBytes))\<rparr>;
                      received = us_chunksReceived session + 1;
                      fh2 = fh1\<lparr>activeUploads := (activeUploads fh1)(uploadId \<mapsto>
                                   session\<lparr>us_chunksReceived := received\<rparr>)\<rparr>
                  in if us_totalChunks session = 0 then (fh2, DivisionTrap)
                     else (fh2, UploadProgress uploadId received totalChunks
                                   ((received * 100) div us_totalChunks session)))))))"

text \<open>
  The assembly loop of \<^verbatim>\<open>handleUploadFinalize\<close> over the chunk indices: the bytes
  appended so far, and the first index whose chunk file is missing, if any.
\<close>

fun assemble :: "(32 word \<rightharpoonup> bytes) \<Rightarrow> nat list \<Rightarrow> bytes \<Rightarrow> bytes \<times> nat option" where
  "assemble dir [] acc = (acc, None)"
| "assemble dir (i # is) acc =
     (case dir (of_nat i) of
        None \<Rightarrow> (acc, Some i)
      | Some chunk \<Rightarrow> assemble dir is (acc @ chunk))"

text \<open>
  What the \<^verbatim>\<open>try\<close> block of \<^verbatim>\<open>handleUploadFinalize\<close> does before it either throws with a
  message (\<open>Inl\<close>) or completes (\<open>Inr\<close>): the state carries every file written until then.
  A directory that is gone has no chunk files.
\<close>

definition finalize_body ::
  "string \<Rightarrow> string \<Rightarrow> 64 word \<Rightarrow> bool \<Rightarrow> FileHandler \<Rightarrow> string \<Rightarrow> string
     \<Rightarrow> FileHandler \<times> (string + upload_reply)"
where
  "finalize_body fileId messageId now open_ok fh uploadId userId =
     (if uploadId = [] then (fh, Inl ''Missing uploadId'')
      else (case activeUploads fh uploadId of
        None \<Rightarrow> (fh, Inl ''Upload session not found'')
      | Some session \<Rightarrow>
          (if us_userId session \<noteq> userId then (fh, Inl ''Unauthorized'')
           else if us_chunksReceived session \<noteq> us_totalChunks session
           then (fh, Inl (''Missing chunks: '' @ to_string (unat (us_chunksReceived session))
                           @ ''/'' @ to_string (unat (us_totalChunks session))))
           else if \<not> open_ok then (fh, Inl ''Failed to create final file'')
           else
             let finalFileName = fileId @ getFileExtension (us_fileName session);
                 dir = (case temp_dirs fh (us_tempDir session) of
                          None \<Rightarrow> Map.empty | Some d \<Rightarrow> d)
             in (case assemble dir [0 ..< unat (us_totalChunks session)] [] of
                  (written, Some i) \<Rightarrow>
                    (fh\<lparr>upload_files := (upload_files fh)(finalFileName \<mapsto> written)\<rparr>,
                     Inl (''Missing chunk: '' @ to_string i))
                | (written, None) \<Rightarrow>
                    (let fileUrl = ''http://localhost:8080/uploads/'' @ finalFileName;
                         isVoiceMessage = starts_with (us_mimeType session) ''audio/'';
                         msgType = (if isVoiceMessage then ''voice''
                                    else if starts_with (us_mimeType session) ''image/''
                                    then ''image'' else ''file'');
                         message = \<lparr>fm_messageId = messageId, fm_roomId = us_roomId session,
                                     fm_userId = us_userId session,
                                     fm_voiceContent = isVoiceMessage, fm_timestamp = now,
                                     fm_messageType = msgType, fm_fileId = fileId,
                                     fm_fileName = us_fileName session, fm_url = fileUrl,
                                     fm_fileSize = us_fileSize session,
                                     fm_mimeType = us_mimeType session\<rparr>;
                         fh1 = fh\<lparr>upload_files := (upload_files fh)(finalFileName \<mapsto> written),
                                  temp_dirs := (temp_dirs fh)(us_tempDir session := None),
                                  activeUploads := (activeUploads fh)(uploadId := None)\<rparr>;
                         fh2 = (if broker_set fh1
                                then fh1\<lparr>published := published fh1
                                                        @ [(us_roomId session, message)]\<rparr>
                                else fh1)
                     in (fh2, Inr (UploadComplete uploadId fileId fileUrl (us_fileName session)
                                     (us_fileSize session) (us_mimeType session)
                                     isVoiceMessage)))))))"

text \<open>The \<^verbatim>\<open>catch\<close> block: remove the session of that id, if any, with its directory.\<close>

definition finalize_cleanup :: "FileHandler \<Rightarrow> string \<Rightarrow> FileHandler" where
  "finalize_cleanup fh uploadId =
     (case activeUploads fh uploadId of
        None \<Rightarrow> fh
      | Some session \<Rightarrow>
          fh\<lparr>temp_dirs := (temp_dirs fh)(us_tempDir session := None),
             activeUploads := (activeUploads fh)(uploadId := None)\<rparr>)"

definition handleUploadFinalize ::
  "string \<Rightarrow> string \<Rightarrow> 64 word \<Rightarrow> bool \<Rightarrow> FileHandler \<Rightarrow> frame \<Rightarrow> string
     \<Rightarrow> FileHandler \<times> upload_reply"
where
  "handleUploadFinalize fileId messageId now open_ok fh data userId =
     (let uploadId = value_str data ''uploadId'' '''' in
      case finalize_body fileId messageId now open_ok fh uploadId userId of
        (fh1, Inr reply) \<Rightarrow> (fh1, reply)
      | (fh1, Inl what) \<Rightarrow> (finalize_cleanup fh1 uploadId, UploadError uploadId what))"

section \<open>Connection registry and message dispatch: \<^verbatim>\<open>WebSocketServer\<close> (websocket\_server.h, websocket\_server.cpp)\<close>

text \<open>
  A connection handle is the socket pointer used as the key of \<^verbatim>\<open>connections_\<close>; 0 is
  the null pointer. The registry is an unordered map; it is the list of its entries in
  the order the loops over it visit them, each key once.
\<close>

type_synonym handle = nat

record ConnectionState =
  conn_sessionId :: string
  conn_userId :: string
  conn_username :: string
  currentRoom :: string
  authenticated :: bool
  conn_connectedAt :: "64 word"
  wsPtr :: handle

text \<open>
  The per-socket data the dispatcher reads through \<^verbatim>\<open>ws->getUserData()\<close>. Its
  declaration (socket\_data.h) is not among the sources; these are the fields
  websocket\_server.cpp uses.
\<close>

record PerSocketData =
  ps_authenticated :: bool
  ps_userId :: string
  ps_username :: string
  ps_sessionId :: string
  ps_currentRoom :: string

type_synonym registry = "(handle \<times> ConnectionState) list"

text \<open>The default constructor \<^verbatim>\<open>ConnectionState()\<close>.\<close>

definition ConnectionState_default :: ConnectionState where
  "ConnectionState_default =
     \<lparr>conn_sessionId = '''', conn_userId = '''', conn_username = '''', currentRoom = '''',
      authenticated = False, conn_connectedAt = 0, wsPtr = 0\<rparr>"

text \<open>\<^verbatim>\<open>connections_[k] = v\<close>.\<close>

fun registry_put :: "handle \<Rightarrow> ConnectionState \<Rightarrow> registry \<Rightarrow> registry" where
  "registry_put k v [] = [(k, v)]"
| "registry_put k v ((k', v') # r) =
     (if k' = k then (k, v) # r else (k', v') # registry_put k v r)"

text \<open>
  \<^verbatim>\<open>connections_[k].field = x\<close>: \<^verbatim>\<open>operator[]\<close> inserts a default entry when the key
  is absent.
\<close>

fun registry_modify ::
  "handle \<Rightarrow> (ConnectionState \<Rightarrow> ConnectionState) \<Rightarrow> registry \<Rightarrow> registry"
where
  "registry_modify k f [] = [(k, f ConnectionState_default)]"
| "registry_modify k f ((k', v') # r) =
     (if k' = k then (k, f v') # r else (k', v') # registry_modify k f r)"

definition registry_erase :: "handle \<Rightarrow> registry \<Rightarrow> registry" where
  "registry_erase k r = filter (\<lambda>(k', v). k' \<noteq> k) r"

text \<open>
  The send loops. Each returns the sends it makes, in order, as (socket, message); a
  send that fails does not stop a loop.
\<close>

fun sendToUser :: "registry \<Rightarrow> string \<Rightarrow> 'm \<Rightarrow> (handle \<times> 'm) list" where
  "sendToUser [] userId message = []"
| "sendToUser ((key, state) # rest) userId message =
     (if authenticated state \<and> wsPtr state \<noteq> 0 \<and> conn_userId state = userId
      then [(wsPtr state, message)]
      else sendToUser rest userId message)"

fun broadcast :: "registry \<Rightarrow> 'm \<Rightarrow> (handle \<times> 'm) list" where
  "broadcast [] message = []"
| "broadcast ((key, state) # rest) message =
     (if authenticated state \<and> wsPtr state \<noteq> 0
      then (wsPtr state, message) # broadcast rest message
      else broadcast rest message)"

fun global_loop :: "registry \<Rightarrow> 'm \<Rightarrow> string \<Rightarrow> (handle \<times> 'm) list" where
  "global_loop [] message excludeUserId = []"
| "global_loop ((key, state) # rest) message excludeUserId =
     (if authenticated state \<and> wsPtr state \<noteq> 0 \<and> conn_userId state \<noteq> excludeUserId
      then (wsPtr state, message) # global_loop rest message excludeUserId
      else global_loop rest message excludeUserId)"

fun is_member :: "string list \<Rightarrow> string \<Rightarrow> bool" where
  "is_member [] userId = False"
| "is_member (memberId # rest) userId = (if memberId = userId then True else is_member rest userId)"

fun room_loop ::
  "string list \<Rightarrow> registry \<Rightarrow> string \<Rightarrow> 'm \<Rightarrow> string \<Rightarrow> (handle \<times> 'm) list"
where
  "room_loop roomMembers [] roomId message excludeUserId = []"
| "room_loop roomMembers ((key, state) # rest) roomId message excludeUserId =
     (if \<not> authenticated state \<or> wsPtr state = 0 \<or> conn_userId state = excludeUserId
      then room_loop roomMembers rest roomId message excludeUserId
      else
        let shouldSend = is_member roomMembers (conn_userId state);
            shouldSend = (if \<not> shouldSend \<and> currentRoom state = roomId then True
                          else shouldSend)
        in if shouldSend
           then (wsPtr state, message) # room_loop roomMembers rest roomId message excludeUserId
           else room_loop roomMembers rest roomId message excludeUserId)"

text \<open>
  \<^verbatim>\<open>broadcastToRoom\<close>. \<open>getRoomMembers\<close> is the database call; \<open>None\<close> is the
  exception the code catches, which leaves the member list empty.
\<close>

definition broadcastToRoom ::
  "(string \<Rightarrow> string list option) \<Rightarrow> registry \<Rightarrow> string \<Rightarrow> 'm \<Rightarrow> string
     \<Rightarrow> (handle \<times> 'm) list"
where
  "broadcastToRoom getRoomMembers conns roomId message excludeUserId =
     (if roomId = ''global'' then global_loop conns message excludeUserId
      else
        let roomMembers = (case getRoomMembers roomId of None \<Rightarrow> [] | Some ms \<Rightarrow> ms)
        in room_loop roomMembers conns roomId message excludeUserId)"

text \<open>
  The registry as the open handler builds it: every entry stores its own socket, which
  is not null, and every socket has one entry.
\<close>

definition registry_ok :: "registry \<Rightarrow> bool" where
  "registry_ok conns =
     (distinct (map fst conns) \<and> list_all (\<lambda>(k, st). wsPtr st = k \<and> k \<noteq> 0) conns)"

subsection \<open>The dispatch chain\<close>

text \<open>
  The message handler compares the frame's \<^verbatim>\<open>type\<close> with one literal after the other.
  The table lists the literals in that order with the shape of the branch:
  \<^item> \<open>Open\<close>: the branch runs without looking at \<^verbatim>\<open>data->authenticated\<close>;
  \<^item> \<open>ErrorIfUnauth\<close>: \<^verbatim>\<open>if (data->authenticated) {...} else sendErrorJson("Not authenticated")\<close>;
  \<^item> \<open>DropIfUnauth\<close>: \<^verbatim>\<open>if (data->authenticated) {...}\<close> with no \<^verbatim>\<open>else\<close>;
  \<^item> \<open>AiRequest\<close>: the branch of \<^verbatim>\<open>ai_request\<close>, which also tests the AI client.
\<close>

datatype guard = Open | ErrorIfUnauth | DropIfUnauth | AiRequest

definition dispatch_table :: "(string \<times> guard) list" where
  "dispatch_table =
     [(''register'', Open), (''login'', Open), (''auth'', Open),
      (''chat'', ErrorIfUnauth), (''typing'', DropIfUnauth),
      (''get_online_users'', DropIfUnauth), (''edit_message'', ErrorIfUnauth),
      (''delete_message'', ErrorIfUnauth), (''add_reaction'', DropIfUnauth),
      (''pin_message'', DropIfUnauth), (''unpin_message'', DropIfUnauth),
      (''reply_message'', DropIfUnauth), (''create_room'', ErrorIfUnauth),
      (''join_room'', ErrorIfUnauth), (''leave_room'', ErrorIfUnauth),
      (''get_rooms'', ErrorIfUnauth), (''search_messages'', ErrorIfUnauth),
      (''mark_read'', ErrorIfUnauth), (''ping'', Open),
      (''call_init'', ErrorIfUnauth), (''call_accept'', ErrorIfUnauth),
      (''call_reject'', ErrorIfUnauth), (''call_end'', ErrorIfUnauth),
      (''webrtc_offer'', DropIfUnauth), (''webrtc_answer'', DropIfUnauth),
      (''webrtc_ice'', DropIfUnauth), (''presence_update'', DropIfUnauth),
      (''profile_update'', ErrorIfUnauth), (''change_password'', ErrorIfUnauth),
      (''ai_request'', AiRequest),
      (''poll_create'', DropIfUnauth), (''poll_vote'', DropIfUnauth),
      (''poll_close'', DropIfUnauth), (''get_room_polls'', DropIfUnauth),
      (''game_invite'', DropIfUnauth), (''game_accept'', DropIfUnauth),
      (''game_reject'', DropIfUnauth), (''game_move'', DropIfUnauth),
      (''watch_create'', DropIfUnauth), (''watch_sync'', DropIfUnauth),
      (''watch_end'', DropIfUnauth),
      (''upload_init'', ErrorIfUnauth), (''upload_chunk'', ErrorIfUnauth),
      (''upload_finalize'', ErrorIfUnauth), (''forward_message'', ErrorIfUnauth),
      (''user_block'', ErrorIfUnauth), (''user_unblock'', ErrorIfUnauth),
      (''get_blocked_users'', ErrorIfUnauth), (''kick_user'', ErrorIfUnauth),
      (''invite_user'', ErrorIfUnauth), (''chat_sticker'', ErrorIfUnauth),
      (''chat_location'', ErrorIfUnauth)]"

text \<open>
  Where a frame of a given type goes: into the body of its branch (\<open>Handled\<close>), to an
  \<^verbatim>\<open>error\<close> frame with a message (\<open>ErrorReply\<close>), or nowhere (\<open>NoReply\<close>). The first
  literal that equals the type decides; no literal is the final \<^verbatim>\<open>else\<close>.
\<close>

datatype dispatch = Handled string | ErrorReply string | NoReply

fun first_match :: "(string \<times> guard) list \<Rightarrow> string \<Rightarrow> guard option" where
  "first_match [] ty = None"
| "first_match ((lit, g) # rest) ty = (if ty = lit then Some g else first_match rest ty)"

definition message_dispatch :: "bool \<Rightarrow> bool \<Rightarrow> string \<Rightarrow> dispatch" where
  "message_dispatch is_authenticated gemini ty =
     (case first_match dispatch_table ty of
        None \<Rightarrow> ErrorReply ''Unknown message type''
      | Some Open \<Rightarrow> Handled ty
      | Some ErrorIfUnauth \<Rightarrow>
          (if is_authenticated then Handled ty else ErrorReply ''Not authenticated'')
      | Some DropIfUnauth \<Rightarrow> (if is_authenticated then Handled ty else NoReply)
      | Some AiRequest \<Rightarrow>
          (if is_authenticated \<and> gemini then Handled ty
           else if \<not> gemini then ErrorReply ''AI service not available''
           else ErrorReply ''Not authenticated''))"


subsection \<open>The server\<close>

datatype out_frame =
    ErrorFrame string
  | CallIncoming string string string string
  | CallInitResponse bool string string
  | PresenceUpdate string string string
  | SignalFrame string payload
  | UploadFrame upload_reply

text \<open>
  What a step reads from outside: the JSON library, \<^verbatim>\<open>std::time\<close>, the system clock,
  the two identifiers a finalize generates, whether output files open, and the room
  members the database returns.
\<close>

record env =
  env_json_ok :: "payload \<Rightarrow> bool"
  env_time :: int
  env_clock :: "64 word"
  env_fileId :: string
  env_messageId :: string
  env_open_ok :: bool
  env_getRoomMembers :: "string \<Rightarrow> string list option"

record Server =
  connections :: registry
  sockets :: "handle \<rightharpoonup> PerSocketData"
  webrtcHandler :: WebRTCHandler
  fileHandler :: FileHandler
  geminiClient :: bool
  sent :: "(handle \<times> out_frame) list"
  status_updates :: "(string \<times> int) list"

definition to_string_int :: "int \<Rightarrow> string" where
  "to_string_int i = (if i < 0 then ''-'' @ to_string (nat (- i)) else to_string (nat i))"

text \<open>The \<^verbatim>\<open>open\<close> handler.\<close>

definition on_open :: "Server \<Rightarrow> handle \<Rightarrow> Server" where
  "on_open srv ws =
     srv\<lparr>sockets := (sockets srv)(ws \<mapsto>
            \<lparr>ps_authenticated = False, ps_userId = '''', ps_username = '''',
             ps_sessionId = '''', ps_currentRoom = ''''\<rparr>),
         connections := registry_put ws (ConnectionState_default\<lparr>wsPtr := ws\<rparr>)
                          (connections srv)\<rparr>"

text \<open>
  What a successful \<^verbatim>\<open>auth\<close> frame writes, once the token resolved to a user id and a
  name: the socket's data and its registry entry. (The replies of that branch are not
  part of the model.)
\<close>

definition mark_authenticated :: "Server \<Rightarrow> handle \<Rightarrow> string \<Rightarrow> string \<Rightarrow> Server" where
  "mark_authenticated srv ws userId username =
     (case sockets srv ws of
        None \<Rightarrow> srv
      | Some data \<Rightarrow>
          srv\<lparr>sockets := (sockets srv)(ws \<mapsto>
                 data\<lparr>ps_authenticated := True, ps_userId := userId,
                      ps_username := username,
                      ps_sessionId := ''ws-session-'' @ userId\<rparr>),
              connections := registry_modify ws
                 (\<lambda>st. st\<lparr>authenticated := True, conn_userId := userId,
                           conn_username := username\<rparr>) (connections srv)\<rparr>)"

text \<open>
  The deliveries a \<^verbatim>\<open>WebRTCHandler\<close> call made go out through the callback the server's
  constructor installs, which is \<^verbatim>\<open>sendToUser\<close>; what it published on a topic reaches no
  socket.
\<close>

fun deliver_signals :: "registry \<Rightarrow> delivery list \<Rightarrow> (handle \<times> out_frame) list" where
  "deliver_signals conns [] = []"
| "deliver_signals conns (ViaCallback userId signalType data # ds) =
     sendToUser conns userId (SignalFrame signalType data) @ deliver_signals conns ds"
| "deliver_signals conns (ViaPubSub topic signalType data # ds) = deliver_signals conns ds"

definition after_webrtc :: "Server \<Rightarrow> handle \<Rightarrow> WebRTCHandler \<times> outcome \<Rightarrow> Server" where
  "after_webrtc srv ws result =
     (let h1 = fst result;
          new = drop (length (delivered (webrtcHandler srv))) (delivered h1);
          srv1 = srv\<lparr>webrtcHandler := h1,
                     sent := sent srv @ deliver_signals (connections srv) new\<rparr>
      in case snd result of
           Threw \<Rightarrow> srv1\<lparr>sent := sent srv1 @ [(ws, ErrorFrame ''Invalid JSON'')]\<rparr>
         | Returned r \<Rightarrow> srv1)"

definition call_init_branch :: "env \<Rightarrow> Server \<Rightarrow> handle \<Rightarrow> PerSocketData \<Rightarrow> frame \<Rightarrow> Server" where
  "call_init_branch e srv ws data msg =
     (let targetId = value_str msg ''targetId'' '''';
          callType = value_str msg ''callType'' ''video'';
          callId = ''call-'' @ to_string_int (env_time e) @ ''-'' @ take 8 (ps_userId data);
          incomingCall = CallIncoming callId (ps_userId data) (ps_username data) callType;
          response = CallInitResponse True callId (''Calling '' @ targetId @ ''...'')
      in srv\<lparr>sent := sent srv @ sendToUser (connections srv) targetId incomingCall
                            @ [(ws, response)]\<rparr>)"

datatype step = Next Server | Trapped | Unmodelled

text \<open>
  The \<^verbatim>\<open>message\<close> handler for a frame that parsed. The bodies of the call, WebRTC and
  upload branches are modelled; a frame that enters another body is \<open>Unmodelled\<close>. An
  exception of the JSON library inside a body is caught and answered "Invalid JSON".
\<close>

definition on_message :: "env \<Rightarrow> Server \<Rightarrow> handle \<Rightarrow> frame \<Rightarrow> step" where
  "on_message e srv ws msg =
     (case sockets srv ws of
        None \<Rightarrow> Unmodelled
      | Some data \<Rightarrow>
          (case message_dispatch (ps_authenticated data) (geminiClient srv) (fr_type msg) of
             ErrorReply what \<Rightarrow> Next (srv\<lparr>sent := sent srv @ [(ws, ErrorFrame what)]\<rparr>)
           | NoReply \<Rightarrow> Next srv
           | Handled ty \<Rightarrow>
               (if ty = ''call_init'' then Next (call_init_branch e srv ws data msg)
                else if ty = ''webrtc_offer'' then
                  Next (after_webrtc srv ws
                    (sendOffer (env_json_ok e) (webrtcHandler srv)
                       (value_str msg ''callId'' '''') (ps_userId data)
                       (value_str msg ''targetId'' '''') (value_str msg ''sdp'' '''')))
                else if ty = ''webrtc_answer'' then
                  Next (after_webrtc srv ws
                    (sendAnswer (env_json_ok e) (env_clock e) (webrtcHandler srv)
                       (value_str msg ''callId'' '''') (ps_userId data)
                       (value_str msg ''targetId'' '''') (value_str msg ''sdp'' '''')))
                else if ty = ''webrtc_ice'' then
                  Next (after_webrtc srv ws
                    (sendIceCandidate (env_json_ok e) (webrtcHandler srv)
                       (value_str msg ''callId'' '''') (ps_userId data)
                       (value_str msg ''targetId'' '''') (value_str msg ''candidate'' '''')))
                else if ty = ''upload_init'' then
                  (case handleUploadInit (env_fileId e) (env_clock e) (fileHandler srv) msg
                          (ps_userId data) (value_str msg ''roomId'' ''global'') of
                     (fh, reply) \<Rightarrow>
                       Next (srv\<lparr>fileHandler := fh,
                                 sent := sent srv @ [(ws, UploadFrame reply)]\<rparr>))
                else if ty = ''upload_chunk'' then
                  (case handleUploadChunk (env_open_ok e) (fileHandler srv) msg (ps_userId data) of
                     (fh, DivisionTrap) \<Rightarrow> Trapped
                   | (fh, reply) \<Rightarrow>
                       Next (srv\<lparr>fileHandler := fh,
                                 sent := sent srv @ [(ws, UploadFrame reply)]\<rparr>))
                else if ty = ''upload_finalize'' then
                  (case handleUploadFinalize (env_fileId e) (env_messageId e) (env_clock e)
                          (env_open_ok e) (fileHandler srv) msg (ps_userId data) of
                     (fh, reply) \<Rightarrow>
                       Next (srv\<lparr>fileHandler := fh,
                                 sent := sent srv @ [(ws, UploadFrame reply)]\<rparr>))
                else Unmodelled)))"

text \<open>
  The loop of the \<^verbatim>\<open>close\<close> handler that tells the other users, and the handler: mark
  the user offline in the database, send the presence update, erase the entry. It
  calls nothing of the file handler or of the call handler.
\<close>

fun offline_loop :: "registry \<Rightarrow> string \<Rightarrow> out_frame \<Rightarrow> (handle \<times> out_frame) list" where
  "offline_loop [] userId offlineMsg = []"
| "offline_loop ((key, state) # rest) userId offlineMsg =
     (if authenticated state \<and> wsPtr state \<noteq> 0 \<and> conn_userId state \<noteq> userId
      then (wsPtr state, offlineMsg) # offline_loop rest userId offlineMsg
      else offline_loop rest userId offlineMsg)"

definition on_close :: "Server \<Rightarrow> handle \<Rightarrow> Server" where
  "on_close srv ws =
     (let srv1 =
        (case sockets srv ws of
           None \<Rightarrow> srv
         | Some data \<Rightarrow>
             if ps_authenticated data
             then srv\<lparr>status_updates := status_updates srv @ [(ps_userId data, 0)],
                      sent := sent srv @ offline_loop (connections srv) (ps_userId data)
                                (PresenceUpdate (ps_userId data) (ps_username data) ''offline'')\<rparr>
             else srv)
      in srv1\<lparr>connections := registry_erase ws (connections srv1),
               sockets := (sockets srv1)(ws := None)\<rparr>)"

text \<open>
  What \<^verbatim>\<open>handleJoinRoomJson\<close> writes before it turns to the database: the room the socket
  is viewing, in the socket's data and in its registry entry when there is one.
\<close>

definition set_current_room :: "Server \<Rightarrow> handle \<Rightarrow> string \<Rightarrow> Server" where
  "set_current_room srv ws roomId =
     (case sockets srv ws of
        None \<Rightarrow> srv
      | Some data \<Rightarrow>
          srv\<lparr>sockets := (sockets srv)(ws \<mapsto> data\<lparr>ps_currentRoom := roomId\<rparr>),
              connections :=
                (if ws \<in> fst ` set (connections srv)
                 then registry_modify ws (\<lambda>st. st\<lparr>currentRoom := roomId\<rparr>) (connections srv)
                 else connections srv)\<rparr>)"

subsection \<open>An example server\<close>

text \<open>
  Five sockets: 1 and 2 are two devices of alice, 3 is bob, 4 has not authenticated,
  5 is carol, who is viewing room1. The database knows bob as the only member of room1
  and fails for every other room.
\<close>

definition ex_fh0 :: FileHandler where
  "ex_fh0 = \<lparr>activeUploads = Map.empty, temp_dirs = Map.empty, upload_files = Map.empty,
             broker_set = True, published = []\<rparr>"

definition ex_srv0 :: Server where
  "ex_srv0 = \<lparr>connections = [], sockets = Map.empty, webrtcHandler = ex_h0,
              fileHandler = ex_fh0, geminiClient = False, sent = [], status_updates = []\<rparr>"

definition ex_srv :: Server where
  "ex_srv =
     set_current_room
       (mark_authenticated
          (mark_authenticated
             (mark_authenticated
                (mark_authenticated
                   (on_open (on_open (on_open (on_open (on_open ex_srv0 1) 2) 3) 4) 5)
                   1 ''alice'' ''Alice'')
                2 ''alice'' ''Alice'')
             3 ''bob'' ''Bob'')
          5 ''carol'' ''Carol'')
       5 ''room1''"

definition ex_env :: env where
  "ex_env = \<lparr>env_json_ok = accept_all, env_time = 1700000000, env_clock = 1700000000,
             env_fileId = ''file_1'', env_messageId = ''file_2'', env_open_ok = True,
             env_getRoomMembers = (\<lambda>r. if r = ''room1'' then Some [''bob''] else None)\<rparr>"

definition conn :: "handle \<Rightarrow> string \<Rightarrow> string \<Rightarrow> string \<Rightarrow> bool \<Rightarrow> ConnectionState" where
  "conn ws uid name room a =
     \<lparr>conn_sessionId = '''', conn_userId = uid, conn_username = name, currentRoom = room,
      authenticated = a, conn_connectedAt = 0, wsPtr = ws\<rparr>"

text \<open>
  A server whose registry is as the handlers leave it: the registry is well formed and
  has an entry for exactly the open sockets.
\<close>

definition server_ok :: "Server \<Rightarrow> bool" where
  "server_ok srv =
     (registry_ok (connections srv) \<and> dom (sockets srv) = fst ` set (connections srv))"





subsection \<open>Example uploads\<close>












section \<open>Properties of the call handler\<close>


lemma ex_calling_eq:
  "ex_calling =
     \<lparr>calls = [''c1'' \<mapsto> \<lparr>cs_callId = ''c1'', cs_roomId = '''', cs_type = VIDEO,
        cs_state = CALLING, initiatorId = ''A'',
        participants = [\<lparr>p_userId = ''A'', hasVideo = True, hasAudio = True, isMuted = False,
                         isScreenSharing = False\<rparr>],
        startedAt = 1000, connectedAt = 0\<rparr>],
      userCalls = [''A'' \<mapsto> ''c1''], sendToUserCallback = True,
      delivered = [ViaCallback ''B'' ''call_incoming''
         (Spliced (incoming_text ''c1'' ''A'' ''Alice'' VIDEO False))]\<rparr>"
  by (simp add: ex_calling_def initiateCall_def ex_h0_def sendSignal_def accept_all_def
        signal_to_def Let_def)

lemma ex_connecting_eq:
  "ex_connecting =
     \<lparr>calls = [''c1'' \<mapsto> \<lparr>cs_callId = ''c1'', cs_roomId = '''', cs_type = VIDEO,
        cs_state = CONNECTING, initiatorId = ''A'',
        participants = [\<lparr>p_userId = ''A'', hasVideo = True, hasAudio = True, isMuted = False,
                         isScreenSharing = False\<rparr>,
                        \<lparr>p_userId = ''B'', hasVideo = True, hasAudio = True, isMuted = False,
                         isScreenSharing = False\<rparr>],
        startedAt = 1000, connectedAt = 0\<rparr>],
      userCalls = [''A'' \<mapsto> ''c1'', ''B'' \<mapsto> ''c1''], sendToUserCallback = True,
      delivered = [ViaCallback ''B'' ''call_incoming''
         (Spliced (incoming_text ''c1'' ''A'' ''Alice'' VIDEO False)),
         ViaCallback ''A'' ''call_accepted'' (Spliced (accepted_text ''c1'' ''B''))]\<rparr>"
  by (simp add: ex_connecting_def ex_calling_eq acceptCall_def sendSignal_def accept_all_def
        signal_to_def Let_def)










text \<open>
  The guard of \<^verbatim>\<open>initiateCall\<close>: a caller with an index entry is refused and nothing
  changes.
\<close>

lemma initiateCall_guard:
  "userCalls h callerId = Some c \<Longrightarrow>
   initiateCall json_ok newCallId now h callerId callerName targetId ty isGroupCall
     = (h, Returned AlreadyInCall)"
  by (simp add: initiateCall_def)

text \<open>
  Claim C3, at the input where it fails. A calls B (call c1); B, who has no index entry
  yet, calls C (call c2); B accepts c1. \<^verbatim>\<open>acceptCall\<close> does not look at the index, so B
  is now a participant of both sessions, c1 in CONNECTING and c2 in CALLING, while the
  index holds one entry for B.
\<close>

theorem acceptCall_joins_second_session:
  "map_option (map p_userId \<circ> participants) (calls ex_two_calls ''c1'') = Some [''A'', ''B'']
   \<and> map_option (map p_userId \<circ> participants) (calls ex_two_calls ''c2'') = Some [''B'']
   \<and> map_option cs_state (calls ex_two_calls ''c1'') = Some CONNECTING
   \<and> map_option cs_state (calls ex_two_calls ''c2'') = Some CALLING
   \<and> userCalls ex_two_calls ''B'' = Some ''c1''"
  by (simp add: ex_two_calls_def ex_calling_eq acceptCall_def initiateCall_def sendSignal_def
        accept_all_def Let_def)

text \<open>
  Claim C4, at the input where it fails. A calls B, B accepts, then B rejects the call.
  \<^verbatim>\<open>rejectCall\<close> returns "Call Declined", deletes the session and erases the initiator's
  index entry only: B, a current participant, keeps an entry for the deleted call, is
  reported as having an active call, and cannot initiate a call any more.
\<close>

theorem rejectCall_keeps_accepter_index:
  "(let h3 = fst (rejectCall accept_all ex_connecting ''c1'' ''B'' ''declined'') in
     snd (rejectCall accept_all ex_connecting ''c1'' ''B'' ''declined'') = Returned CallDeclined
   \<and> calls h3 ''c1'' = None \<and> userCalls h3 ''A'' = None
   \<and> userCalls h3 ''B'' = Some ''c1''
   \<and> hasActiveCall h3 ''B''
   \<and> initiateCall accept_all ''c2'' 2000 h3 ''B'' ''Bob'' ''A'' AUDIO False
        = (h3, Returned AlreadyInCall))"
  by (simp add: ex_connecting_eq rejectCall_def sendSignal_def accept_all_def Let_def
        hasActiveCall_def initiateCall_def)

section \<open>Properties of the registry and the dispatch\<close>

lemma ex_srv_connections:
  "connections ex_srv =
     [(1, conn 1 ''alice'' ''Alice'' '''' True), (2, conn 2 ''alice'' ''Alice'' '''' True),
      (3, conn 3 ''bob'' ''Bob'' '''' True), (4, conn 4 '''' '''' '''' False),
      (5, conn 5 ''carol'' ''Carol'' ''room1'' True)]"
  by (simp add: ex_srv_def ex_srv0_def on_open_def mark_authenticated_def set_current_room_def
        ConnectionState_default_def conn_def)

lemma ex_srv_registry_ok: "registry_ok (connections ex_srv)"
  by (simp add: ex_srv_connections registry_ok_def conn_def)

lemma is_member_iff: "is_member ms u \<longleftrightarrow> u \<in> set ms"
  by (induction ms) auto

lemma global_loop_eq:
  "list_all (\<lambda>(k, st). wsPtr st = k \<and> k \<noteq> 0) conns \<Longrightarrow>
   global_loop conns m ex =
     map (\<lambda>(k, st). (k, m))
       (filter (\<lambda>(k, st). authenticated st \<and> conn_userId st \<noteq> ex) conns)"
  by (induction conns m ex rule: global_loop.induct) auto

lemma room_loop_eq:
  "list_all (\<lambda>(k, st). wsPtr st = k \<and> k \<noteq> 0) conns \<Longrightarrow>
   room_loop ms conns room m ex =
     map (\<lambda>(k, st). (k, m))
       (filter (\<lambda>(k, st). authenticated st \<and> conn_userId st \<noteq> ex
                  \<and> (conn_userId st \<in> set ms \<or> currentRoom st = room)) conns)"
  by (induction ms conns room m ex rule: room_loop.induct) (auto simp: is_member_iff Let_def)

lemma distinct_map_filter_fst:
  "distinct (map fst xs) \<Longrightarrow> distinct (map fst (map (\<lambda>(k, st). (k, m)) (filter P xs)))"
  by (induction xs) (auto simp: rev_image_eqI)

text \<open>
  Claim C6. On a registry as the open handler builds it, \<^verbatim>\<open>broadcastToRoom\<close> sends the
  message once to each recipient and to nobody else, where the recipients are: for room
  "global", the authenticated connections, without every connection of the excluded
  user; for any other room, the authenticated connections whose user is in the member
  list the database returned (empty when the call threw) together with the
  authenticated connections whose current room is that room, again without every
  connection of the excluded user.
\<close>

theorem broadcastToRoom_recipients:
  assumes "registry_ok conns"
    and "members = (case getRoomMembers roomId of None \<Rightarrow> [] | Some ms \<Rightarrow> ms)"
    and "out = broadcastToRoom getRoomMembers conns roomId message excludeUserId"
  shows "(roomId = ''global'' \<longrightarrow>
            fst ` set out =
              {k. \<exists>st. (k, st) \<in> set conns \<and> authenticated st}
              - {k. \<exists>st. (k, st) \<in> set conns \<and> conn_userId st = excludeUserId})
       \<and> (roomId \<noteq> ''global'' \<longrightarrow>
            fst ` set out =
              ({k. \<exists>st. (k, st) \<in> set conns \<and> authenticated st \<and> conn_userId st \<in> set members}
               \<union> {k. \<exists>st. (k, st) \<in> set conns \<and> authenticated st \<and> currentRoom st = roomId})
              - {k. \<exists>st. (k, st) \<in> set conns \<and> conn_userId st = excludeUserId})
       \<and> distinct (map fst out)
       \<and> snd ` set out \<subseteq> {message}"
proof -
  from assms(1) have d: "distinct (map fst conns)"
    and w: "list_all (\<lambda>(k, st). wsPtr st = k \<and> k \<noteq> 0) conns"
    by (simp_all add: registry_ok_def)
  have uniq: "\<And>k st st'. (k, st) \<in> set conns \<Longrightarrow> (k, st') \<in> set conns \<Longrightarrow> st = st'"
    using d by (meson eq_key_imp_eq_value)
  show ?thesis
  proof (cases "roomId = ''global''")
    case True
    then have o: "out = map (\<lambda>(k, st). (k, message))
       (filter (\<lambda>(k, st). authenticated st \<and> conn_userId st \<noteq> excludeUserId) conns)"
      by (simp add: assms(3) broadcastToRoom_def global_loop_eq [OF w])
    have "fst ` set out = {k. \<exists>st. (k, st) \<in> set conns \<and> authenticated st}
              - {k. \<exists>st. (k, st) \<in> set conns \<and> conn_userId st = excludeUserId}"
      unfolding o by (auto simp: image_iff dest: uniq)
    moreover have "distinct (map fst out)"
      unfolding o by (rule distinct_map_filter_fst [OF d])
    moreover have "snd ` set out \<subseteq> {message}"
      unfolding o by auto
    ultimately show ?thesis using True by simp
  next
    case False
    then have o: "out = map (\<lambda>(k, st). (k, message))
       (filter (\<lambda>(k, st). authenticated st \<and> conn_userId st \<noteq> excludeUserId
                  \<and> (conn_userId st \<in> set members \<or> currentRoom st = roomId)) conns)"
      by (simp add: assms(2,3) broadcastToRoom_def room_loop_eq [OF w])
    have "fst ` set out =
              ({k. \<exists>st. (k, st) \<in> set conns \<and> authenticated st \<and> conn_userId st \<in> set members}
               \<union> {k. \<exists>st. (k, st) \<in> set conns \<and> authenticated st \<and> currentRoom st = roomId})
              - {k. \<exists>st. (k, st) \<in> set conns \<and> conn_userId st = excludeUserId}"
      unfolding o by (auto simp: image_iff dest: uniq) blast+
    moreover have "distinct (map fst out)"
      unfolding o by (rule distinct_map_filter_fst [OF d])
    moreover have "snd ` set out \<subseteq> {message}"
      unfolding o by auto
    ultimately show ?thesis using False by simp
  qed
qed

theorem broadcastToRoom_recipients_witness:
  "registry_ok (connections ex_srv)
   \<and> broadcastToRoom (env_getRoomMembers ex_env) (connections ex_srv) ''global'' ''hi'' ''alice''
       = [(3, ''hi''), (5, ''hi'')]
   \<and> broadcastToRoom (env_getRoomMembers ex_env) (connections ex_srv) ''room1'' ''hi'' ''alice''
       = [(3, ''hi''), (5, ''hi'')]
   \<and> fst ` set (broadcastToRoom (env_getRoomMembers ex_env) (connections ex_srv)
                  ''global'' ''hi'' ''alice'')
       = {k. \<exists>st. (k, st) \<in> set (connections ex_srv) \<and> authenticated st}
         - {k. \<exists>st. (k, st) \<in> set (connections ex_srv) \<and> conn_userId st = ''alice''}
   \<and> fst ` set (broadcastToRoom (env_getRoomMembers ex_env) (connections ex_srv)
                  ''room1'' ''hi'' ''alice'')
       = ({k. \<exists>st. (k, st) \<in> set (connections ex_srv) \<and> authenticated st
                \<and> conn_userId st \<in> set [''bob'']}
          \<union> {k. \<exists>st. (k, st) \<in> set (connections ex_srv) \<and> authenticated st
                \<and> currentRoom st = ''room1''})
         - {k. \<exists>st. (k, st) \<in> set (connections ex_srv) \<and> conn_userId st = ''alice''}"
proof -
  have g: "''global'' = ''global''" and r: "''room1'' \<noteq> ''global''" by simp_all
  have m: "(case env_getRoomMembers ex_env ''room1'' of None \<Rightarrow> [] | Some ms \<Rightarrow> ms) = [''bob'']"
    by (simp add: ex_env_def)
  note t1 = broadcastToRoom_recipients [where getRoomMembers = "env_getRoomMembers ex_env"
            and roomId = "''global''" and message = "''hi''" and excludeUserId = "''alice''",
            OF ex_srv_registry_ok refl refl]
  note t2 = broadcastToRoom_recipients [where getRoomMembers = "env_getRoomMembers ex_env"
            and roomId = "''room1''" and message = "''hi''" and excludeUserId = "''alice''",
            OF ex_srv_registry_ok refl refl]
  have e1: "broadcastToRoom (env_getRoomMembers ex_env) (connections ex_srv) ''global'' ''hi'' ''alice''
       = [(3, ''hi''), (5, ''hi'')]"
    by (simp add: broadcastToRoom_def ex_srv_connections conn_def)
  have e2: "broadcastToRoom (env_getRoomMembers ex_env) (connections ex_srv) ''room1'' ''hi'' ''alice''
       = [(3, ''hi''), (5, ''hi'')]"
    by (simp add: broadcastToRoom_def ex_srv_connections conn_def ex_env_def)
  note s1 = t1 [THEN conjunct1, THEN mp, OF refl]
  note s2 = t2 [THEN conjunct2, THEN conjunct1, THEN mp, OF r, unfolded m]
  show ?thesis
    apply (intro conjI)
        apply (rule ex_srv_registry_ok)
       apply (rule e1)
      apply (rule e2)
     apply (rule s1)
    apply (rule s2)
    done
qed

lemma sendToUser_at_most_one: "length (sendToUser conns u m) \<le> 1"
  by (induction conns u m rule: sendToUser.induct) auto

text \<open>
  Claim C1, at the input where it fails. Alice is authenticated on sockets 1 and 2.
  \<^verbatim>\<open>sendToUser\<close> returns from inside its loop after the first send: only socket 1
  receives the message, socket 2 does not.
\<close>

theorem sendToUser_first_connection_only:
  "map (\<lambda>(k, st). (conn_userId st, authenticated st)) (connections ex_srv) =
     [(''alice'', True), (''alice'', True), (''bob'', True), ('''', False), (''carol'', True)]
   \<and> sendToUser (connections ex_srv) ''alice'' ''hi'' = [(1, ''hi'')]"
  by (simp add: ex_srv_connections conn_def)

text \<open>The handlers keep the registry well formed.\<close>

lemma registry_put_keys: "fst ` set (registry_put k v r) = insert k (fst ` set r)"
  by (induction k v r rule: registry_put.induct) auto

lemma registry_put_ok:
  "registry_ok r \<Longrightarrow> wsPtr v = k \<Longrightarrow> k \<noteq> 0 \<Longrightarrow> registry_ok (registry_put k v r)"
  by (induction k v r rule: registry_put.induct)
     (auto simp: registry_ok_def registry_put_keys rev_image_eqI)

lemma registry_modify_keys: "fst ` set (registry_modify k f r) = insert k (fst ` set r)"
  by (induction k f r rule: registry_modify.induct) auto

lemma registry_modify_ok:
  "registry_ok r \<Longrightarrow> k \<in> fst ` set r \<Longrightarrow> (\<And>st. wsPtr (f st) = wsPtr st)
     \<Longrightarrow> registry_ok (registry_modify k f r)"
  by (induction k f r rule: registry_modify.induct)
     (auto simp: registry_ok_def registry_modify_keys)

lemma registry_erase_ok: "registry_ok r \<Longrightarrow> registry_ok (registry_erase k r)"
  by (induction r) (auto simp: registry_ok_def registry_erase_def)

lemma registry_erase_keys: "fst ` set (registry_erase k r) = fst ` set r - {k}"
  by (induction r) (auto simp: registry_erase_def)

lemma server_ok_on_open: "server_ok srv \<Longrightarrow> ws \<noteq> 0 \<Longrightarrow> server_ok (on_open srv ws)"
  by (simp add: server_ok_def on_open_def registry_put_ok registry_put_keys
        ConnectionState_default_def)

lemma server_ok_mark_authenticated:
  "server_ok srv \<Longrightarrow> server_ok (mark_authenticated srv ws u n)"
  by (auto simp: server_ok_def mark_authenticated_def registry_modify_keys
        intro!: registry_modify_ok split: option.splits)

lemma server_ok_set_current_room:
  "server_ok srv \<Longrightarrow> server_ok (set_current_room srv ws room)"
  by (auto simp: server_ok_def set_current_room_def registry_modify_keys
        intro!: registry_modify_ok split: option.splits)

lemma server_ok_on_close: "server_ok srv \<Longrightarrow> server_ok (on_close srv ws)"
  by (auto simp: server_ok_def on_close_def registry_erase_keys Let_def
        intro!: registry_erase_ok split: option.splits)

lemma after_webrtc_keeps:
  "connections (after_webrtc srv ws r) = connections srv
   \<and> sockets (after_webrtc srv ws r) = sockets srv"
  by (simp add: after_webrtc_def Let_def split: outcome.splits)

lemma on_message_keeps_registry:
  assumes "on_message e srv ws msg = Next srv'"
  shows "connections srv' = connections srv \<and> sockets srv' = sockets srv"
proof (cases "sockets srv ws")
  case None
  with assms show ?thesis by (simp add: on_message_def)
next
  case (Some data)
  show ?thesis
  proof (cases "message_dispatch (ps_authenticated data) (geminiClient srv) (fr_type msg)")
    case (Handled ty)
    with assms Some show ?thesis
      by (auto simp: on_message_def call_init_branch_def after_webrtc_keeps Let_def
            split: if_splits prod.splits upload_reply.splits)
  next
    case (ErrorReply what)
    with assms Some show ?thesis by (auto simp: on_message_def)
  next
    case NoReply
    with assms Some show ?thesis by (auto simp: on_message_def)
  qed
qed

lemma server_ok_on_message:
  "server_ok srv \<Longrightarrow> on_message e srv ws msg = Next srv' \<Longrightarrow> server_ok srv'"
  using on_message_keeps_registry [of e srv ws msg srv'] by (simp add: server_ok_def)

















section \<open>Properties of the upload handler\<close>






















end
